theory Spec2Isabelle
  imports Main
begin

section \<open>JavaScript values\<close>

text \<open>
  The argument bag of a tool call, the payloads the handlers build and the parsed
  responses are JSON-shaped JavaScript values. Strings are byte lists (UTF-8), numbers
  are the integers (the catalogue's numeric arguments are page numbers and page sizes),
  \<open>NaN\<close> is the result of a failed numeric coercion, and an object is the list of its
  own properties in enumeration order. \<open>Undefined\<close> is what reading an absent
  property yields.
\<close>

datatype jsval =
    Undefined
  | Null
  | Bool bool
  | Num int
  | NaN
  | Str string
  | Arr "jsval list"
  | Obj "(string \<times> jsval) list"

type_synonym bag = "(string \<times> jsval) list"

text \<open>Truthiness, as tested by \<open>!x\<close>, \<open>x ? a : b\<close>, \<open>x && y\<close> and \<open>x || y\<close>.\<close>

fun truthy :: "jsval \<Rightarrow> bool" where
  "truthy Undefined = False"
| "truthy Null = False"
| "truthy (Bool b) = b"
| "truthy (Num n) = (n \<noteq> 0)"
| "truthy NaN = False"
| "truthy (Str s) = (s \<noteq> [])"
| "truthy (Arr xs) = True"
| "truthy (Obj ps) = True"

definition js_or :: "jsval \<Rightarrow> jsval \<Rightarrow> jsval" where
  "js_or a b = (if truthy a then a else b)"

text \<open>Property read \<open>o.k\<close>: the value of the first property named \<open>k\<close>, else undefined.\<close>

fun get_prop :: "bag \<Rightarrow> string \<Rightarrow> jsval" where
  "get_prop [] k = Undefined"
| "get_prop ((k', v) # ps) k = (if k' = k then v else get_prop ps k)"

text \<open>Property write \<open>o.k = v\<close>: an existing property keeps its place, a new one is added last.\<close>

fun set_prop :: "bag \<Rightarrow> string \<Rightarrow> jsval \<Rightarrow> bag" where
  "set_prop [] k v = [(k, v)]"
| "set_prop ((k', v') # ps) k v = (if k' = k then (k, v) # ps else (k', v') # set_prop ps k v)"

text \<open>Rest destructuring \<open>const { k1, ..., kn, ...rest } = o\<close>.\<close>

definition rest_props :: "string list \<Rightarrow> bag \<Rightarrow> bag" where
  "rest_props ks ps = filter (\<lambda>p. fst p \<notin> set ks) ps"

subsection \<open>Conversion to string\<close>

fun join :: "string \<Rightarrow> string list \<Rightarrow> string" where
  "join sep [] = []"
| "join sep [x] = x"
| "join sep (x # y # r) = x @ sep @ join sep (y # r)"

fun digits :: "nat \<Rightarrow> string" where
  "digits n = (if n < 10 then [''0123456789'' ! n]
               else digits (n div 10) @ [''0123456789'' ! (n mod 10)])"

definition int_to_string :: "int \<Rightarrow> string" where
  "int_to_string i = (if i < 0 then ''-'' @ digits (nat (- i)) else digits (nat i))"

text \<open>
  \<open>String(v)\<close> and template interpolation. An array joins its elements with commas,
  printing null and undefined elements as the empty string. An integer prints in
  decimal: that is what JavaScript prints for a number below \<open>10^21\<close> in magnitude; from
  there on JavaScript prints an exponent form, which this function does not follow.
  \<open>prints_decimal v\<close> says that every number \<open>String(v)\<close> has to print is below that
  bound, so that \<open>ToString v\<close> is the string the code builds.
\<close>

fun ToString :: "jsval \<Rightarrow> string" where
  "ToString Undefined = ''undefined''"
| "ToString Null = ''null''"
| "ToString (Bool b) = (if b then ''true'' else ''false'')"
| "ToString (Num n) = int_to_string n"
| "ToString NaN = ''NaN''"
| "ToString (Str s) = s"
| "ToString (Arr xs) =
     join '','' (map (\<lambda>x. if x = Undefined \<or> x = Null then [] else ToString x) xs)"
| "ToString (Obj ps) = ''[object Object]''"


subsection \<open>The order of an object's properties\<close>

text \<open>A non-empty run of decimal digits, read as a number.\<close>

definition read_nat :: "string \<Rightarrow> nat option" where
  "read_nat s =
     (if s \<noteq> [] \<and> list_all (\<lambda>c. c \<in> set ''0123456789'') s
      then Some (foldl (\<lambda>n c. 10 * n + (of_char c - 48)) 0 s)
      else None)"




subsection \<open>Conversion to number, \<open>Math.min\<close>\<close>

text \<open>
  \<open>Math.min(v, 1000)\<close> coerces \<open>v\<close> to a number first. The numeric value of a string
  is the runtime's business (\<open>string_to_number\<close>, \<open>None\<close> for NaN); arrays and objects
  are coerced through their string form.
\<close>

fun ToNumber :: "(string \<Rightarrow> int option) \<Rightarrow> jsval \<Rightarrow> int option" where
  "ToNumber s2n Undefined = None"
| "ToNumber s2n Null = Some 0"
| "ToNumber s2n (Bool b) = Some (if b then 1 else 0)"
| "ToNumber s2n (Num n) = Some n"
| "ToNumber s2n NaN = None"
| "ToNumber s2n (Str s) = s2n s"
| "ToNumber s2n (Arr xs) = s2n (ToString (Arr xs))"
| "ToNumber s2n (Obj ps) = s2n (ToString (Obj ps))"

definition Math_min :: "(string \<Rightarrow> int option) \<Rightarrow> jsval \<Rightarrow> int \<Rightarrow> jsval" where
  "Math_min s2n v m = (case ToNumber s2n v of None \<Rightarrow> NaN | Some n \<Rightarrow> Num (min n m))"

section \<open>Dates\<close>

text \<open>
  A time value is a number of milliseconds since the epoch. \<open>toISOString\<close> prints it as
  \<open>YYYY-MM-DDTHH:mm:ss.sssZ\<close> in UTC, with a signed six-digit year outside 0..9999.
\<close>

definition pad :: "nat \<Rightarrow> nat \<Rightarrow> string" where
  "pad w n = replicate (w - length (digits n)) (CHR ''0'') @ digits n"

definition civil_from_days :: "int \<Rightarrow> int \<times> int \<times> int" where
  "civil_from_days z0 =
     (let z = z0 + 719468;
          era = z div 146097;
          doe = z - era * 146097;
          yoe = (doe - doe div 1460 + doe div 36524 - doe div 146096) div 365;
          doy = doe - (365 * yoe + yoe div 4 - yoe div 100);
          mp = (5 * doy + 2) div 153;
          d = doy - (153 * mp + 2) div 5 + 1;
          m = (if mp < 10 then mp + 3 else mp - 9);
          y = yoe + era * 400 + (if m \<le> 2 then 1 else 0)
      in (y, m, d))"

definition year_string :: "int \<Rightarrow> string" where
  "year_string y =
     (if 0 \<le> y \<and> y \<le> 9999 then pad 4 (nat y)
      else (if y < 0 then ''-'' else ''+'') @ pad 6 (nat \<bar>y\<bar>))"

definition toISOString :: "int \<Rightarrow> string" where
  "toISOString t =
     (case civil_from_days (t div 86400000) of (y, m, d) \<Rightarrow>
        year_string y @ ''-'' @ pad 2 (nat m) @ ''-'' @ pad 2 (nat d) @ ''T''
        @ pad 2 (nat ((t div 3600000) mod 24)) @ '':''
        @ pad 2 (nat ((t div 60000) mod 60)) @ '':''
        @ pad 2 (nat ((t div 1000) mod 60)) @ ''.''
        @ pad 3 (nat (t mod 1000)) @ ''Z'')"

section \<open>Configuration, requests and the runtime\<close>

record ClockifyConfig =
  apiKey :: string
  baseUrl :: string

datatype http_method = GET | POST | PUT | DELETE | PATCH

text \<open>
  An outbound request as handed to \<open>fetch\<close>. The body is recorded as the value given to
  \<open>JSON.stringify\<close>; \<open>None\<close> is a request without a body.
\<close>

record request =
  url :: string
  http_method :: http_method
  headers :: "(string \<times> string) list"
  body :: "jsval option"

record response =
  status :: nat
  body_text :: string

definition ok :: "response \<Rightarrow> bool" where
  "ok r = (200 \<le> status r \<and> status r \<le> 299)"

text \<open>\<open>fetch\<close> either rejects with an error (its message is kept) or resolves to a response.\<close>

datatype fetch_result = Rejected string | Response response

datatype ErrorCode = InvalidParams | MethodNotFound | InternalError

text \<open>
  What the code can throw: an \<open>McpError\<close> with the code and message given to its
  constructor, or another JavaScript error (TypeError, RangeError, SyntaxError), of
  which only the message is observed.
\<close>

datatype thrown = McpError ErrorCode string | JsError string

text \<open>
  The parts of the JavaScript runtime and of the network the code calls:
  \<open>fetch\<close>; \<open>JSON.parse\<close> as applied by \<open>response.json()\<close> (\<open>Inl\<close> the message of
  its SyntaxError); \<open>Date.parse\<close> (\<open>None\<close> for NaN); the clock read by \<open>new Date()\<close>;
  and the numeric value of a string.
\<close>

record runtime =
  fetch :: "request \<Rightarrow> fetch_result"
  JSON_parse :: "string \<Rightarrow> string + jsval"
  Date_parse :: "string \<Rightarrow> int option"
  Date_now :: int
  string_to_number :: "string \<Rightarrow> int option"

text \<open>
  \<open>new Date(s).toISOString()\<close>: the parsed time value is clipped to the valid range, and
  an invalid date makes \<open>toISOString\<close> throw a RangeError.
\<close>

definition new_Date_toISOString :: "runtime \<Rightarrow> string \<Rightarrow> thrown + string" where
  "new_Date_toISOString rt s =
     (case Date_parse rt s of
        None \<Rightarrow> Inl (JsError ''Invalid time value'')
      | Some t \<Rightarrow>
          if \<bar>t\<bar> \<le> 8640000000000000 then Inr (toISOString t)
          else Inl (JsError ''Invalid time value''))"

text \<open>
  The result of a call: the requests handed to \<open>fetch\<close>, in order, and either what was
  thrown or the value obtained.
\<close>

type_synonym outcome = "request list \<times> (thrown + jsval)"

section \<open>The HTTP client primitive\<close>

text \<open>
  \<open>return response.json()\<close> is not awaited inside the \<open>try\<close> block, so a rejection of
  \<open>response.json()\<close> passes the \<open>catch\<close> clause as it is.
\<close>

definition request_for ::
  "ClockifyConfig \<Rightarrow> string \<Rightarrow> http_method \<Rightarrow> jsval option \<Rightarrow> string option \<Rightarrow> request" where
  "request_for cfg endpoint meth data base =
     \<lparr>url = (case base of
                Some b \<Rightarrow> if b \<noteq> [] then b else baseUrl cfg
              | None \<Rightarrow> baseUrl cfg) @ endpoint,
      http_method = meth,
      headers = [(''X-Api-Key'', apiKey cfg), (''Content-Type'', ''application/json'')],
      body = (case data of
                Some d \<Rightarrow> if truthy d then Some d else None
              | None \<Rightarrow> None)\<rparr>"

definition api_error :: "response \<Rightarrow> thrown" where
  "api_error r =
     McpError InternalError
       (''Clockify API error ('' @ digits (status r) @ ''): '' @ body_text r)"

definition not_configured :: thrown where
  "not_configured =
     McpError InvalidParams
       ''Clockify API key not configured. Set CLOCKIFY_API_KEY environment variable.''"

definition makeRequest ::
  "ClockifyConfig \<Rightarrow> runtime \<Rightarrow> string \<Rightarrow> http_method \<Rightarrow> jsval option \<Rightarrow> string option
     \<Rightarrow> outcome" where
  "makeRequest cfg rt endpoint meth data base =
     (if apiKey cfg = [] then ([], Inl not_configured)
      else
        ([request_for cfg endpoint meth data base],
         case fetch rt (request_for cfg endpoint meth data base) of
           Rejected msg \<Rightarrow> Inl (McpError InternalError (''Request failed: '' @ msg))
         | Response r \<Rightarrow>
             if \<not> ok r then Inl (api_error r)
             else (case JSON_parse rt (body_text r) of
                     Inl msg \<Rightarrow> Inl (JsError msg)
                   | Inr j \<Rightarrow> Inr j)))"

text \<open>The constructor reads the key from the environment; the base URL is fixed.\<close>

definition config_of_env :: "string option \<Rightarrow> ClockifyConfig" where
  "config_of_env key =
     \<lparr>apiKey = (case key of Some k \<Rightarrow> k | None \<Rightarrow> []),
      baseUrl = ''https://api.clockify.me/api/v1''\<rparr>"

section \<open>Query strings\<close>

text \<open>
  \<open>URLSearchParams.toString()\<close>: the application/x-www-form-urlencoded serializer. A
  byte that is an ASCII letter or digit or one of \<open>* - . _\<close> stands for itself, a space
  becomes \<open>+\<close>, any other byte is percent-encoded.
\<close>

definition hex_digit :: "nat \<Rightarrow> char" where
  "hex_digit n = ''0123456789ABCDEF'' ! n"

definition form_byte :: "char \<Rightarrow> string" where
  "form_byte c =
     (if c = CHR '' '' then ''+''
      else if c \<in> set ''abcdefghijklmnopqrstuvwxyzABCDEFGHIJKLMNOPQRSTUVWXYZ0123456789*-._''
      then [c]
      else [CHR ''%'', hex_digit (of_char c div 16), hex_digit (of_char c mod 16)])"

definition form_encode :: "string \<Rightarrow> string" where
  "form_encode s = concat (map form_byte s)"

definition URLSearchParams_toString :: "(string \<times> string) list \<Rightarrow> string" where
  "URLSearchParams_toString ps =
     join ''&'' (map (\<lambda>p. form_encode (fst p) @ ''='' @ form_encode (snd p)) ps)"

text \<open>
  The loop shared by the list handlers: every entry whose value is neither undefined
  nor null is appended with its value converted to a string.
\<close>

definition queryParams :: "bag \<Rightarrow> (string \<times> string) list" where
  "queryParams params =
     map (\<lambda>p. (fst p, ToString (snd p)))
       (filter (\<lambda>p. snd p \<noteq> Undefined \<and> snd p \<noteq> Null) params)"

definition with_query :: "string \<Rightarrow> bag \<Rightarrow> string" where
  "with_query path params =
     (if URLSearchParams_toString (queryParams params) \<noteq> []
      then path @ ''?'' @ URLSearchParams_toString (queryParams params)
      else path)"

section \<open>Handlers\<close>

text \<open>
  Each handler shapes its arguments into one call of \<open>makeRequest\<close>, or throws before
  calling it. The shaping is the function \<open>..._request\<close>; the handler proper performs
  the call. What a handler does with the value obtained (rendering it as text) issues
  no request and is not part of this development.
\<close>

record api_call =
  endpoint :: string
  verb :: http_method
  payload :: "jsval option"
  base :: "string option"

definition perform :: "ClockifyConfig \<Rightarrow> runtime \<Rightarrow> api_call \<Rightarrow> outcome" where
  "perform cfg rt c = makeRequest cfg rt (endpoint c) (verb c) (payload c) (base c)"

definition perform_or_throw :: "ClockifyConfig \<Rightarrow> runtime \<Rightarrow> thrown + api_call \<Rightarrow> outcome" where
  "perform_or_throw cfg rt x = (case x of Inl e \<Rightarrow> ([], Inl e) | Inr c \<Rightarrow> perform cfg rt c)"

definition workspaces :: "jsval \<Rightarrow> string" where
  "workspaces w = ''/workspaces/'' @ ToString w"

subsection \<open>User and workspace\<close>

definition getCurrentUser :: "ClockifyConfig \<Rightarrow> runtime \<Rightarrow> outcome" where
  "getCurrentUser cfg rt = makeRequest cfg rt ''/user'' GET None None"

definition getWorkspaces :: "ClockifyConfig \<Rightarrow> runtime \<Rightarrow> outcome" where
  "getWorkspaces cfg rt = makeRequest cfg rt ''/workspaces'' GET None None"

definition getWorkspaceUsers :: "ClockifyConfig \<Rightarrow> runtime \<Rightarrow> jsval \<Rightarrow> outcome" where
  "getWorkspaceUsers cfg rt workspaceId =
     makeRequest cfg rt (workspaces workspaceId @ ''/users'') GET None None"

subsection \<open>Time entries\<close>

text \<open>
  \<open>v.includes("T")\<close>: a substring test on a string, a membership test on an array, and a
  TypeError on anything else (no such method, or a property that is not callable). The
  error names the expression \<open>recv\<close> whose method is called.
\<close>

fun includes_T :: "string \<Rightarrow> jsval \<Rightarrow> thrown + bool" where
  "includes_T recv (Str s) = Inr (CHR ''T'' \<in> set s)"
| "includes_T recv (Arr xs) = Inr (Str ''T'' \<in> set xs)"
| "includes_T recv Undefined =
     Inl (JsError ''Cannot read properties of undefined (reading 'includes')'')"
| "includes_T recv Null =
     Inl (JsError ''Cannot read properties of null (reading 'includes')'')"
| "includes_T recv v = Inl (JsError (recv @ ''.includes is not a function''))"

text \<open>
  The statement \<open>if (!d.k.includes("T")) d.k = new Date(d.k).toISOString()\<close>, and,
  with \<open>guarded\<close>, its form \<open>if (d.k && !d.k.includes("T")) ...\<close>, for the object
  held by the variable named \<open>var\<close>.
\<close>

definition ensure_iso ::
  "runtime \<Rightarrow> bool \<Rightarrow> string \<Rightarrow> string \<Rightarrow> bag \<Rightarrow> thrown + bag" where
  "ensure_iso rt guarded var k d =
     (if guarded \<and> \<not> truthy (get_prop d k) then Inr d
      else case includes_T (var @ ''.'' @ k) (get_prop d k) of
        Inl e \<Rightarrow> Inl e
      | Inr True \<Rightarrow> Inr d
      | Inr False \<Rightarrow>
          (case new_Date_toISOString rt (ToString (get_prop d k)) of
             Inl e \<Rightarrow> Inl e
           | Inr s \<Rightarrow> Inr (set_prop d k (Str s))))"

definition createTimeEntry_request :: "runtime \<Rightarrow> bag \<Rightarrow> thrown + api_call" where
  "createTimeEntry_request rt args =
     (case ensure_iso rt False ''timeEntryData'' ''start'' (rest_props [''workspaceId''] args) of
        Inl e \<Rightarrow> Inl e
      | Inr d1 \<Rightarrow>
          (case ensure_iso rt True ''timeEntryData'' ''end'' d1 of
             Inl e \<Rightarrow> Inl e
           | Inr timeEntryData \<Rightarrow>
               Inr \<lparr>endpoint = workspaces (get_prop args ''workspaceId'') @ ''/time-entries'',
                    verb = POST, payload = Some (Obj timeEntryData), base = None\<rparr>))"

definition createTimeEntry :: "ClockifyConfig \<Rightarrow> runtime \<Rightarrow> bag \<Rightarrow> outcome" where
  "createTimeEntry cfg rt args = perform_or_throw cfg rt (createTimeEntry_request rt args)"

definition getTimeEntries_request :: "bag \<Rightarrow> api_call" where
  "getTimeEntries_request args =
     \<lparr>endpoint =
        with_query
          (if truthy (get_prop args ''userId'')
           then workspaces (get_prop args ''workspaceId'') @ ''/user/''
                @ ToString (get_prop args ''userId'') @ ''/time-entries''
           else workspaces (get_prop args ''workspaceId'') @ ''/time-entries'')
          (rest_props [''workspaceId'', ''userId''] args),
      verb = GET, payload = None, base = None\<rparr>"

definition getTimeEntries :: "ClockifyConfig \<Rightarrow> runtime \<Rightarrow> bag \<Rightarrow> outcome" where
  "getTimeEntries cfg rt args = perform cfg rt (getTimeEntries_request args)"

definition updateTimeEntry_request :: "runtime \<Rightarrow> bag \<Rightarrow> thrown + api_call" where
  "updateTimeEntry_request rt args =
     (case ensure_iso rt True ''updateData'' ''start''
             (rest_props [''workspaceId'', ''timeEntryId''] args) of
        Inl e \<Rightarrow> Inl e
      | Inr d1 \<Rightarrow>
          (case ensure_iso rt True ''updateData'' ''end'' d1 of
             Inl e \<Rightarrow> Inl e
           | Inr updateData \<Rightarrow>
               Inr \<lparr>endpoint = workspaces (get_prop args ''workspaceId'') @ ''/time-entries/''
                               @ ToString (get_prop args ''timeEntryId''),
                    verb = PUT, payload = Some (Obj updateData), base = None\<rparr>))"

definition updateTimeEntry :: "ClockifyConfig \<Rightarrow> runtime \<Rightarrow> bag \<Rightarrow> outcome" where
  "updateTimeEntry cfg rt args = perform_or_throw cfg rt (updateTimeEntry_request rt args)"

definition deleteTimeEntry :: "ClockifyConfig \<Rightarrow> runtime \<Rightarrow> jsval \<Rightarrow> jsval \<Rightarrow> outcome" where
  "deleteTimeEntry cfg rt workspaceId timeEntryId =
     makeRequest cfg rt
       (workspaces workspaceId @ ''/time-entries/'' @ ToString timeEntryId) DELETE None None"

definition stopTimeEntry_request :: "runtime \<Rightarrow> bag \<Rightarrow> api_call" where
  "stopTimeEntry_request rt args =
     \<lparr>endpoint = workspaces (get_prop args ''workspaceId'') @ ''/user/''
                 @ ToString (get_prop args ''userId'') @ ''/time-entries'',
      verb = PATCH,
      payload = Some (Obj [(''end'',
                  js_or (get_prop args ''end'') (Str (toISOString (Date_now rt))))]),
      base = None\<rparr>"

definition stopTimeEntry :: "ClockifyConfig \<Rightarrow> runtime \<Rightarrow> bag \<Rightarrow> outcome" where
  "stopTimeEntry cfg rt args = perform cfg rt (stopTimeEntry_request rt args)"

subsection \<open>Projects\<close>

definition createProject_request :: "bag \<Rightarrow> api_call" where
  "createProject_request args =
     \<lparr>endpoint = workspaces (get_prop args ''workspaceId'') @ ''/projects'',
      verb = POST, payload = Some (Obj (rest_props [''workspaceId''] args)), base = None\<rparr>"

definition createProject :: "ClockifyConfig \<Rightarrow> runtime \<Rightarrow> bag \<Rightarrow> outcome" where
  "createProject cfg rt args = perform cfg rt (createProject_request args)"

definition getProjects_request :: "bag \<Rightarrow> api_call" where
  "getProjects_request args =
     \<lparr>endpoint = with_query (workspaces (get_prop args ''workspaceId'') @ ''/projects'')
                   (rest_props [''workspaceId''] args),
      verb = GET, payload = None, base = None\<rparr>"

definition getProjects :: "ClockifyConfig \<Rightarrow> runtime \<Rightarrow> bag \<Rightarrow> outcome" where
  "getProjects cfg rt args = perform cfg rt (getProjects_request args)"

definition getProject :: "ClockifyConfig \<Rightarrow> runtime \<Rightarrow> jsval \<Rightarrow> jsval \<Rightarrow> outcome" where
  "getProject cfg rt workspaceId projectId =
     makeRequest cfg rt
       (workspaces workspaceId @ ''/projects/'' @ ToString projectId) GET None None"

definition updateProject_request :: "bag \<Rightarrow> api_call" where
  "updateProject_request args =
     \<lparr>endpoint = workspaces (get_prop args ''workspaceId'') @ ''/projects/''
                 @ ToString (get_prop args ''projectId''),
      verb = PUT, payload = Some (Obj (rest_props [''workspaceId'', ''projectId''] args)),
      base = None\<rparr>"

definition updateProject :: "ClockifyConfig \<Rightarrow> runtime \<Rightarrow> bag \<Rightarrow> outcome" where
  "updateProject cfg rt args = perform cfg rt (updateProject_request args)"

definition deleteProject :: "ClockifyConfig \<Rightarrow> runtime \<Rightarrow> jsval \<Rightarrow> jsval \<Rightarrow> outcome" where
  "deleteProject cfg rt workspaceId projectId =
     makeRequest cfg rt
       (workspaces workspaceId @ ''/projects/'' @ ToString projectId) DELETE None None"

subsection \<open>Tasks\<close>

definition tasks_path :: "jsval \<Rightarrow> jsval \<Rightarrow> string" where
  "tasks_path workspaceId projectId =
     workspaces workspaceId @ ''/projects/'' @ ToString projectId @ ''/tasks''"

definition createTask_request :: "bag \<Rightarrow> api_call" where
  "createTask_request args =
     \<lparr>endpoint = tasks_path (get_prop args ''workspaceId'') (get_prop args ''projectId''),
      verb = POST, payload = Some (Obj (rest_props [''workspaceId'', ''projectId''] args)),
      base = None\<rparr>"

definition createTask :: "ClockifyConfig \<Rightarrow> runtime \<Rightarrow> bag \<Rightarrow> outcome" where
  "createTask cfg rt args = perform cfg rt (createTask_request args)"

definition getTasks_request :: "bag \<Rightarrow> api_call" where
  "getTasks_request args =
     \<lparr>endpoint = with_query
                   (tasks_path (get_prop args ''workspaceId'') (get_prop args ''projectId''))
                   (rest_props [''workspaceId'', ''projectId''] args),
      verb = GET, payload = None, base = None\<rparr>"

definition getTasks :: "ClockifyConfig \<Rightarrow> runtime \<Rightarrow> bag \<Rightarrow> outcome" where
  "getTasks cfg rt args = perform cfg rt (getTasks_request args)"

definition getTask :: "ClockifyConfig \<Rightarrow> runtime \<Rightarrow> jsval \<Rightarrow> jsval \<Rightarrow> jsval \<Rightarrow> outcome" where
  "getTask cfg rt workspaceId projectId taskId =
     makeRequest cfg rt
       (tasks_path workspaceId projectId @ ''/'' @ ToString taskId) GET None None"

definition updateTask_request :: "bag \<Rightarrow> api_call" where
  "updateTask_request args =
     \<lparr>endpoint = tasks_path (get_prop args ''workspaceId'') (get_prop args ''projectId'')
                 @ ''/'' @ ToString (get_prop args ''taskId''),
      verb = PUT,
      payload = Some (Obj (rest_props [''workspaceId'', ''projectId'', ''taskId''] args)),
      base = None\<rparr>"

definition updateTask :: "ClockifyConfig \<Rightarrow> runtime \<Rightarrow> bag \<Rightarrow> outcome" where
  "updateTask cfg rt args = perform cfg rt (updateTask_request args)"

definition deleteTask :: "ClockifyConfig \<Rightarrow> runtime \<Rightarrow> jsval \<Rightarrow> jsval \<Rightarrow> jsval \<Rightarrow> outcome" where
  "deleteTask cfg rt workspaceId projectId taskId =
     makeRequest cfg rt
       (tasks_path workspaceId projectId @ ''/'' @ ToString taskId) DELETE None None"

subsection \<open>Clients\<close>

definition createClient_request :: "bag \<Rightarrow> api_call" where
  "createClient_request args =
     \<lparr>endpoint = workspaces (get_prop args ''workspaceId'') @ ''/clients'',
      verb = POST, payload = Some (Obj (rest_props [''workspaceId''] args)), base = None\<rparr>"

definition createClient :: "ClockifyConfig \<Rightarrow> runtime \<Rightarrow> bag \<Rightarrow> outcome" where
  "createClient cfg rt args = perform cfg rt (createClient_request args)"

definition getClients_request :: "bag \<Rightarrow> api_call" where
  "getClients_request args =
     \<lparr>endpoint = with_query (workspaces (get_prop args ''workspaceId'') @ ''/clients'')
                   (rest_props [''workspaceId''] args),
      verb = GET, payload = None, base = None\<rparr>"

definition getClients :: "ClockifyConfig \<Rightarrow> runtime \<Rightarrow> bag \<Rightarrow> outcome" where
  "getClients cfg rt args = perform cfg rt (getClients_request args)"

definition updateClient_request :: "bag \<Rightarrow> api_call" where
  "updateClient_request args =
     \<lparr>endpoint = workspaces (get_prop args ''workspaceId'') @ ''/clients/''
                 @ ToString (get_prop args ''clientId''),
      verb = PUT, payload = Some (Obj (rest_props [''workspaceId'', ''clientId''] args)),
      base = None\<rparr>"

definition updateClient :: "ClockifyConfig \<Rightarrow> runtime \<Rightarrow> bag \<Rightarrow> outcome" where
  "updateClient cfg rt args = perform cfg rt (updateClient_request args)"

definition deleteClient :: "ClockifyConfig \<Rightarrow> runtime \<Rightarrow> jsval \<Rightarrow> jsval \<Rightarrow> outcome" where
  "deleteClient cfg rt workspaceId clientId =
     makeRequest cfg rt
       (workspaces workspaceId @ ''/clients/'' @ ToString clientId) DELETE None None"

subsection \<open>Tags\<close>

definition createTag_request :: "bag \<Rightarrow> api_call" where
  "createTag_request args =
     \<lparr>endpoint = workspaces (get_prop args ''workspaceId'') @ ''/tags'',
      verb = POST, payload = Some (Obj (rest_props [''workspaceId''] args)), base = None\<rparr>"

definition createTag :: "ClockifyConfig \<Rightarrow> runtime \<Rightarrow> bag \<Rightarrow> outcome" where
  "createTag cfg rt args = perform cfg rt (createTag_request args)"

definition getTags_request :: "bag \<Rightarrow> api_call" where
  "getTags_request args =
     \<lparr>endpoint = with_query (workspaces (get_prop args ''workspaceId'') @ ''/tags'')
                   (rest_props [''workspaceId''] args),
      verb = GET, payload = None, base = None\<rparr>"

definition getTags :: "ClockifyConfig \<Rightarrow> runtime \<Rightarrow> bag \<Rightarrow> outcome" where
  "getTags cfg rt args = perform cfg rt (getTags_request args)"

definition updateTag_request :: "bag \<Rightarrow> api_call" where
  "updateTag_request args =
     \<lparr>endpoint = workspaces (get_prop args ''workspaceId'') @ ''/tags/''
                 @ ToString (get_prop args ''tagId''),
      verb = PUT, payload = Some (Obj (rest_props [''workspaceId'', ''tagId''] args)),
      base = None\<rparr>"

definition updateTag :: "ClockifyConfig \<Rightarrow> runtime \<Rightarrow> bag \<Rightarrow> outcome" where
  "updateTag cfg rt args = perform cfg rt (updateTag_request args)"

definition deleteTag :: "ClockifyConfig \<Rightarrow> runtime \<Rightarrow> jsval \<Rightarrow> jsval \<Rightarrow> outcome" where
  "deleteTag cfg rt workspaceId tagId =
     makeRequest cfg rt
       (workspaces workspaceId @ ''/tags/'' @ ToString tagId) DELETE None None"

subsection \<open>Reports\<close>

text \<open>A list-valued filter \<open>v ? { ids: v } : undefined\<close>.\<close>

definition ids_filter :: "jsval \<Rightarrow> jsval" where
  "ids_filter v = (if truthy v then Obj [(''ids'', v)] else Undefined)"

text \<open>The loop that deletes every top-level property whose value is undefined.\<close>

definition remove_undefined :: "bag \<Rightarrow> bag" where
  "remove_undefined ps = filter (\<lambda>p. snd p \<noteq> Undefined) ps"

definition reports_base :: string where
  "reports_base = ''https://reports.api.clockify.me/v1''"

text \<open>
  The report handlers receive the argument bag unchecked; destructuring an absent bag
  throws a TypeError.
\<close>

definition destructure_error :: thrown where
  "destructure_error =
     JsError ''Cannot destructure property 'workspaceId' of 'args' as it is undefined.''"

definition detailed_payload :: "runtime \<Rightarrow> bag \<Rightarrow> bag" where
  "detailed_payload rt reportData =
     [(''dateRangeStart'', get_prop reportData ''dateRangeStart''),
      (''dateRangeEnd'', get_prop reportData ''dateRangeEnd''),
      (''detailedFilter'', Obj
         [(''sortColumn'', js_or (get_prop reportData ''sortColumn'') (Str ''DATE'')),
          (''sortOrder'', js_or (get_prop reportData ''sortOrder'') (Str ''DESCENDING'')),
          (''page'', js_or (get_prop reportData ''page'') (Num 1)),
          (''pageSize'',
             Math_min (string_to_number rt)
               (js_or (get_prop reportData ''pageSize'') (Num 50)) 1000),
          (''options'', Obj [(''totals'', Str ''CALCULATE'')])]),
      (''users'', ids_filter (get_prop reportData ''users'')),
      (''clients'', ids_filter (get_prop reportData ''clients'')),
      (''projects'', ids_filter (get_prop reportData ''projects'')),
      (''tasks'', ids_filter (get_prop reportData ''tasks'')),
      (''tags'', ids_filter (get_prop reportData ''tags'')),
      (''billable'', get_prop reportData ''billable''),
      (''description'', get_prop reportData ''description''),
      (''withoutDescription'', get_prop reportData ''withoutDescription''),
      (''customFieldIds'', get_prop reportData ''customFieldIds''),
      (''exportType'', js_or (get_prop reportData ''exportType'') (Str ''JSON''))]"

definition getDetailedReport_request :: "runtime \<Rightarrow> bag option \<Rightarrow> thrown + api_call" where
  "getDetailedReport_request rt args =
     (case args of
        None \<Rightarrow> Inl destructure_error
      | Some a \<Rightarrow>
          Inr \<lparr>endpoint = workspaces (get_prop a ''workspaceId'') @ ''/reports/detailed'',
               verb = POST,
               payload = Some (Obj (remove_undefined
                           (detailed_payload rt (rest_props [''workspaceId''] a)))),
               base = Some reports_base\<rparr>)"

definition getDetailedReport :: "ClockifyConfig \<Rightarrow> runtime \<Rightarrow> bag option \<Rightarrow> outcome" where
  "getDetailedReport cfg rt args = perform_or_throw cfg rt (getDetailedReport_request rt args)"

definition summary_payload :: "bag \<Rightarrow> bag" where
  "summary_payload reportData =
     [(''dateRangeStart'', get_prop reportData ''dateRangeStart''),
      (''dateRangeEnd'', get_prop reportData ''dateRangeEnd''),
      (''summaryFilter'', Obj
         [(''groups'', js_or (get_prop reportData ''groups'') (Arr [Str ''PROJECT''])),
          (''sortColumn'', js_or (get_prop reportData ''sortColumn'') (Str ''DURATION'')),
          (''sortOrder'', js_or (get_prop reportData ''sortOrder'') (Str ''DESCENDING''))]),
      (''users'', ids_filter (get_prop reportData ''users'')),
      (''clients'', ids_filter (get_prop reportData ''clients'')),
      (''projects'', ids_filter (get_prop reportData ''projects'')),
      (''tasks'', ids_filter (get_prop reportData ''tasks'')),
      (''tags'', ids_filter (get_prop reportData ''tags'')),
      (''billable'', get_prop reportData ''billable''),
      (''exportType'', js_or (get_prop reportData ''exportType'') (Str ''JSON''))]"

definition getSummaryReport_request :: "bag option \<Rightarrow> thrown + api_call" where
  "getSummaryReport_request args =
     (case args of
        None \<Rightarrow> Inl destructure_error
      | Some a \<Rightarrow>
          Inr \<lparr>endpoint = workspaces (get_prop a ''workspaceId'') @ ''/reports/summary'',
               verb = POST,
               payload = Some (Obj (remove_undefined
                           (summary_payload (rest_props [''workspaceId''] a)))),
               base = Some reports_base\<rparr>)"

definition getSummaryReport :: "ClockifyConfig \<Rightarrow> runtime \<Rightarrow> bag option \<Rightarrow> outcome" where
  "getSummaryReport cfg rt args = perform_or_throw cfg rt (getSummaryReport_request args)"

section \<open>The catalogue\<close>

text \<open>Every operation of the catalogue with the arguments it declares \<open>required\<close>.\<close>

definition catalogue :: "(string \<times> string list) list" where
  "catalogue =
     [(''get_current_user'', []),
      (''get_workspaces'', []),
      (''get_workspace_users'', [''workspaceId'']),
      (''create_time_entry'', [''workspaceId'', ''start'']),
      (''get_time_entries'', [''workspaceId'']),
      (''update_time_entry'', [''workspaceId'', ''timeEntryId'']),
      (''delete_time_entry'', [''workspaceId'', ''timeEntryId'']),
      (''stop_time_entry'', [''workspaceId'', ''userId'']),
      (''create_project'', [''workspaceId'', ''name'']),
      (''get_projects'', [''workspaceId'']),
      (''get_project'', [''workspaceId'', ''projectId'']),
      (''update_project'', [''workspaceId'', ''projectId'']),
      (''delete_project'', [''workspaceId'', ''projectId'']),
      (''create_task'', [''workspaceId'', ''projectId'', ''name'']),
      (''get_tasks'', [''workspaceId'', ''projectId'']),
      (''get_task'', [''workspaceId'', ''projectId'', ''taskId'']),
      (''update_task'', [''workspaceId'', ''projectId'', ''taskId'']),
      (''delete_task'', [''workspaceId'', ''projectId'', ''taskId'']),
      (''create_client'', [''workspaceId'', ''name'']),
      (''get_clients'', [''workspaceId'']),
      (''update_client'', [''workspaceId'', ''clientId'']),
      (''delete_client'', [''workspaceId'', ''clientId'']),
      (''create_tag'', [''workspaceId'', ''name'']),
      (''get_tags'', [''workspaceId'']),
      (''update_tag'', [''workspaceId'', ''tagId'']),
      (''delete_tag'', [''workspaceId'', ''tagId'']),
      (''get_detailed_report'', [''workspaceId'', ''dateRangeStart'', ''dateRangeEnd'']),
      (''get_summary_report'', [''workspaceId'', ''dateRangeStart'', ''dateRangeEnd''])]"

section \<open>The dispatcher\<close>

text \<open>\<open>args?.k\<close>: the arguments of a call may be absent altogether.\<close>

definition arg :: "bag option \<Rightarrow> string \<Rightarrow> jsval" where
  "arg args k = (case args of None \<Rightarrow> Undefined | Some a \<Rightarrow> get_prop a k)"

text \<open>
  The guard \<open>if (!args?.k1 || ... || !args?.kn) throw new McpError(InvalidParams, msg)\<close>
  in front of a handler call.
\<close>

definition require :: "bag option \<Rightarrow> string list \<Rightarrow> string \<Rightarrow> outcome \<Rightarrow> outcome" where
  "require args ks msg continue =
     (if list_ex (\<lambda>k. \<not> truthy (arg args k)) ks
      then ([], Inl (McpError InvalidParams msg))
      else continue)"

text \<open>A handler called with \<open>args as any\<close> destructures the bag first.\<close>

definition with_bag :: "bag option \<Rightarrow> (bag \<Rightarrow> outcome) \<Rightarrow> outcome" where
  "with_bag args handler =
     (case args of None \<Rightarrow> ([], Inl destructure_error) | Some a \<Rightarrow> handler a)"

definition ws_required :: string where
  "ws_required = ''workspaceId is required''"

definition switch :: "ClockifyConfig \<Rightarrow> runtime \<Rightarrow> string \<Rightarrow> bag option \<Rightarrow> outcome" where
  "switch cfg rt name args =
     (if name = ''get_current_user'' then getCurrentUser cfg rt
      else if name = ''get_workspaces'' then getWorkspaces cfg rt
      else if name = ''get_workspace_users'' then
        require args [''workspaceId''] ws_required
          (getWorkspaceUsers cfg rt (arg args ''workspaceId''))
      else if name = ''create_time_entry'' then
        require args [''workspaceId''] ws_required (with_bag args (createTimeEntry cfg rt))
      else if name = ''get_time_entries'' then
        require args [''workspaceId''] ws_required (with_bag args (getTimeEntries cfg rt))
      else if name = ''update_time_entry'' then
        require args [''workspaceId'', ''timeEntryId'']
          ''workspaceId and timeEntryId are required''
          (with_bag args (updateTimeEntry cfg rt))
      else if name = ''delete_time_entry'' then
        require args [''workspaceId'', ''timeEntryId'']
          ''workspaceId and timeEntryId are required''
          (deleteTimeEntry cfg rt (arg args ''workspaceId'') (arg args ''timeEntryId''))
      else if name = ''stop_time_entry'' then
        require args [''workspaceId'', ''userId''] ''workspaceId and userId are required''
          (with_bag args (stopTimeEntry cfg rt))
      else if name = ''create_project'' then
        require args [''workspaceId''] ws_required (with_bag args (createProject cfg rt))
      else if name = ''get_projects'' then
        require args [''workspaceId''] ws_required (with_bag args (getProjects cfg rt))
      else if name = ''get_project'' then
        require args [''workspaceId'', ''projectId''] ''workspaceId and projectId are required''
          (getProject cfg rt (arg args ''workspaceId'') (arg args ''projectId''))
      else if name = ''update_project'' then
        require args [''workspaceId'', ''projectId''] ''workspaceId and projectId are required''
          (with_bag args (updateProject cfg rt))
      else if name = ''delete_project'' then
        require args [''workspaceId'', ''projectId''] ''workspaceId and projectId are required''
          (deleteProject cfg rt (arg args ''workspaceId'') (arg args ''projectId''))
      else if name = ''create_task'' then
        require args [''workspaceId'', ''projectId''] ''workspaceId and projectId are required''
          (with_bag args (createTask cfg rt))
      else if name = ''get_tasks'' then
        require args [''workspaceId'', ''projectId''] ''workspaceId and projectId are required''
          (with_bag args (getTasks cfg rt))
      else if name = ''get_task'' then
        require args [''workspaceId'', ''projectId'', ''taskId'']
          ''workspaceId, projectId and taskId are required''
          (getTask cfg rt (arg args ''workspaceId'') (arg args ''projectId'')
             (arg args ''taskId''))
      else if name = ''update_task'' then
        require args [''workspaceId'', ''projectId'', ''taskId'']
          ''workspaceId, projectId and taskId are required''
          (with_bag args (updateTask cfg rt))
      else if name = ''delete_task'' then
        require args [''workspaceId'', ''projectId'', ''taskId'']
          ''workspaceId, projectId and taskId are required''
          (deleteTask cfg rt (arg args ''workspaceId'') (arg args ''projectId'')
             (arg args ''taskId''))
      else if name = ''create_client'' then
        require args [''workspaceId''] ws_required (with_bag args (createClient cfg rt))
      else if name = ''get_clients'' then
        require args [''workspaceId''] ws_required (with_bag args (getClients cfg rt))
      else if name = ''update_client'' then
        require args [''workspaceId'', ''clientId''] ''workspaceId and clientId are required''
          (with_bag args (updateClient cfg rt))
      else if name = ''delete_client'' then
        require args [''workspaceId'', ''clientId''] ''workspaceId and clientId are required''
          (deleteClient cfg rt (arg args ''workspaceId'') (arg args ''clientId''))
      else if name = ''create_tag'' then
        require args [''workspaceId''] ws_required (with_bag args (createTag cfg rt))
      else if name = ''get_tags'' then
        require args [''workspaceId''] ws_required (with_bag args (getTags cfg rt))
      else if name = ''update_tag'' then
        require args [''workspaceId'', ''tagId''] ''workspaceId and tagId are required''
          (with_bag args (updateTag cfg rt))
      else if name = ''delete_tag'' then
        require args [''workspaceId'', ''tagId''] ''workspaceId and tagId are required''
          (deleteTag cfg rt (arg args ''workspaceId'') (arg args ''tagId''))
      else if name = ''get_detailed_report'' then getDetailedReport cfg rt args
      else if name = ''get_summary_report'' then getSummaryReport cfg rt args
      else ([], Inl (McpError MethodNotFound (''Unknown tool: '' @ name))))"

text \<open>
  The \<open>catch\<close> clause around the switch: an \<open>McpError\<close> is thrown on as it is, anything
  else becomes an internal error carrying its message. An outcome \<open>Inr v\<close> of a call
  means that the handler obtained \<open>v\<close> from \<open>makeRequest\<close>; the text it then renders
  from \<open>v\<close> is not modelled.
\<close>

fun rethrow :: "thrown \<Rightarrow> thrown" where
  "rethrow (McpError c m) = McpError c m"
| "rethrow (JsError m) = McpError InternalError (''Tool execution failed: '' @ m)"

definition callTool :: "ClockifyConfig \<Rightarrow> runtime \<Rightarrow> string \<Rightarrow> bag option \<Rightarrow> outcome" where
  "callTool cfg rt name args =
     (case switch cfg rt name args of
        (sent, Inl e) \<Rightarrow> (sent, Inl (rethrow e))
      | (sent, Inr v) \<Rightarrow> (sent, Inr v))"

section \<open>An example runtime\<close>

text \<open>
  The concrete evaluations below run on this runtime. Its network answers every
  request with one given result. Its \<open>Date.parse\<close> reads the date-only form
  \<open>YYYY-MM-DD\<close> as midnight UTC, a day up to 31 being accepted in any month and
  counted on into the next one; its numeric coercion reads decimal integers with an
  optional sign; its \<open>JSON.parse\<close> knows the empty text, which is not JSON, and the
  two response bodies used below. Other inputs are outside this example (reported as
  unreadable).
\<close>

definition days_from_civil :: "int \<Rightarrow> int \<Rightarrow> int \<Rightarrow> int" where
  "days_from_civil y0 m d =
     (let y = (if m \<le> 2 then y0 - 1 else y0);
          era = y div 400;
          yoe = y - era * 400;
          doy = (153 * (if m > 2 then m - 3 else m + 9) + 2) div 5 + d - 1;
          doe = yoe * 365 + yoe div 4 - yoe div 100 + doy
      in era * 146097 + doe - 719468)"

definition date_only_parse :: "string \<Rightarrow> int option" where
  "date_only_parse s =
     (if length s = 10 \<and> s ! 4 = CHR ''-'' \<and> s ! 7 = CHR ''-'' then
        (case (read_nat (take 4 s), read_nat (take 2 (drop 5 s)), read_nat (drop 8 s)) of
           (Some y, Some m, Some d) \<Rightarrow>
             if 1 \<le> m \<and> m \<le> 12 \<and> 1 \<le> d \<and> d \<le> 31
             then Some (days_from_civil (int y) (int m) (int d) * 86400000)
             else None
         | _ \<Rightarrow> None)
      else None)"

definition decimal_number :: "string \<Rightarrow> int option" where
  "decimal_number s =
     (case s of
        [] \<Rightarrow> Some 0
      | c # cs \<Rightarrow>
          if c = CHR ''-'' then map_option (\<lambda>n. - int n) (read_nat cs)
          else if c = CHR ''+'' then map_option int (read_nat cs)
          else map_option int (read_nat s))"

definition example_JSON_parse :: "string \<Rightarrow> string + jsval" where
  "example_JSON_parse s =
     (if s = [] then Inl ''Unexpected end of JSON input''
      else if s = ''[]'' then Inr (Arr [])
      else if s = ''{\"id\":\"p1\",\"name\":\"Website\"}''
      then Inr (Obj [(''id'', Str ''p1''), (''name'', Str ''Website'')])
      else Inl ''Unexpected token'')"

definition example_runtime :: "fetch_result \<Rightarrow> runtime" where
  "example_runtime answer =
     \<lparr>fetch = (\<lambda>req. answer),
      JSON_parse = example_JSON_parse,
      Date_parse = date_only_parse,
      Date_now = 1705312800000,
      string_to_number = decimal_number\<rparr>"

definition not_found :: response where
  "not_found = \<lparr>status = 404, body_text = ''Not found''\<rparr>"

definition no_content :: response where
  "no_content = \<lparr>status = 204, body_text = []\<rparr>"

definition project_found :: response where
  "project_found = \<lparr>status = 200, body_text = ''{\"id\":\"p1\",\"name\":\"Website\"}''\<rparr>"

section \<open>Reading an outbound body\<close>



section \<open>The shape of an invocation\<close>

text \<open>
  An invocation either throws before any request is made, or is one call of
  \<open>makeRequest\<close> whose arguments do not depend on the configuration.
\<close>

definition single_call :: "runtime \<Rightarrow> (ClockifyConfig \<Rightarrow> outcome) \<Rightarrow> bool" where
  "single_call rt f =
     ((\<exists>x. \<forall>cfg. f cfg = ([], Inl x))
      \<or> (\<exists>e m d b. \<forall>cfg. f cfg = makeRequest cfg rt e m d b))"

section \<open>Properties of the dispatcher and of the client primitive\<close>

lemma single_call_throw: "single_call rt (\<lambda>cfg. ([], Inl x))"
  unfolding single_call_def by blast

lemma single_call_makeRequest: "single_call rt (\<lambda>cfg. makeRequest cfg rt e m d b)"
  unfolding single_call_def by blast

lemma single_call_perform: "single_call rt (\<lambda>cfg. perform cfg rt c)"
  unfolding perform_def by (rule single_call_makeRequest)

lemma single_call_perform_or_throw: "single_call rt (\<lambda>cfg. perform_or_throw cfg rt x)"
  by (cases x) (simp_all add: perform_or_throw_def single_call_throw single_call_perform)

lemma single_call_if:
  "(c \<Longrightarrow> single_call rt f) \<Longrightarrow> (\<not> c \<Longrightarrow> single_call rt g)
     \<Longrightarrow> single_call rt (\<lambda>cfg. if c then f cfg else g cfg)"
  by (cases c) simp_all

lemma single_call_require:
  "single_call rt f \<Longrightarrow> single_call rt (\<lambda>cfg. require args ks msg (f cfg))"
  by (cases "list_ex (\<lambda>k. \<not> truthy (arg args k)) ks")
    (simp_all add: require_def single_call_throw)

lemma single_call_with_bag:
  "(\<And>a. single_call rt (\<lambda>cfg. h cfg a)) \<Longrightarrow> single_call rt (\<lambda>cfg. with_bag args (h cfg))"
  by (cases args) (simp_all add: with_bag_def single_call_throw)

lemmas handler_defs =
  getCurrentUser_def getWorkspaces_def getWorkspaceUsers_def createTimeEntry_def
  getTimeEntries_def updateTimeEntry_def deleteTimeEntry_def stopTimeEntry_def
  createProject_def getProjects_def getProject_def updateProject_def deleteProject_def
  createTask_def getTasks_def getTask_def updateTask_def deleteTask_def
  createClient_def getClients_def updateClient_def deleteClient_def
  createTag_def getTags_def updateTag_def deleteTag_def
  getDetailedReport_def getSummaryReport_def

lemma single_call_switch: "single_call rt (\<lambda>cfg. switch cfg rt name args)"
  unfolding switch_def handler_defs
  by (intro single_call_if single_call_require single_call_with_bag single_call_throw
        single_call_makeRequest single_call_perform single_call_perform_or_throw)

lemma makeRequest_no_key:
  "apiKey cfg = [] \<Longrightarrow> makeRequest cfg rt e m d b = ([], Inl not_configured)"
  by (simp add: makeRequest_def)

lemma makeRequest_sent:
  "apiKey cfg \<noteq> [] \<Longrightarrow> fst (makeRequest cfg rt e m d b) = [request_for cfg e m d b]"
  by (simp add: makeRequest_def)

lemma makeRequest_sent_iff:
  "fst (makeRequest cfg rt e m d b) \<noteq> [] \<longleftrightarrow> apiKey cfg \<noteq> []"
  by (simp add: makeRequest_def)

lemma fst_callTool: "fst (callTool cfg rt name args) = fst (switch cfg rt name args)"
  by (simp add: callTool_def split: prod.splits sum.splits)

lemma callTool_throw:
  "switch cfg rt name args = (sent, Inl e) \<Longrightarrow> callTool cfg rt name args = (sent, Inl (rethrow e))"
  by (simp add: callTool_def)

lemmas example_defs =
  config_of_env_def example_runtime_def example_JSON_parse_def
  not_found_def no_content_def project_found_def ok_def

lemma makeRequest_not_ok:
  assumes "apiKey cfg \<noteq> []" and "fetch rt (request_for cfg e m d b) = Response r"
    and "\<not> ok r"
  shows "makeRequest cfg rt e m d b = ([request_for cfg e m d b], Inl (api_error r))"
  using assms by (simp add: makeRequest_def)

subsection \<open>The success path of the client primitive\<close>

text \<open>
  Claim C2, as the code has it: when an API key is configured and the response has a
  status in the success range, \<open>makeRequest\<close> issues exactly that one request and
  yields the value \<open>JSON.parse\<close> gives for the response body; when the body is not a
  JSON text, which is the case of the empty body, the call fails instead of yielding
  an empty result.
\<close>

theorem C2_success_status:
  assumes "apiKey cfg \<noteq> []"
    and "fetch rt (request_for cfg path meth data over) = Response r"
    and "ok r"
  shows "(\<forall>j. JSON_parse rt (body_text r) = Inr j
            \<longrightarrow> makeRequest cfg rt path meth data over =
                  ([request_for cfg path meth data over], Inr j))
       \<and> (\<forall>msg. JSON_parse rt (body_text r) = Inl msg
            \<longrightarrow> (\<exists>e. makeRequest cfg rt path meth data over =
                       ([request_for cfg path meth data over], Inl e)))"
  using assms by (simp add: makeRequest_def)

theorem C2_success_status_witness:
  "makeRequest (config_of_env (Some ''key'')) (example_runtime (Response project_found))
     ''/workspaces/w1/projects/p1'' GET None None =
     ([request_for (config_of_env (Some ''key'')) ''/workspaces/w1/projects/p1'' GET None None],
      Inr (Obj [(''id'', Str ''p1''), (''name'', Str ''Website'')]))
   \<and> (\<exists>e. makeRequest (config_of_env (Some ''key'')) (example_runtime (Response no_content))
          ''/workspaces/w1/projects/p1'' DELETE None None =
          ([request_for (config_of_env (Some ''key'')) ''/workspaces/w1/projects/p1''
              DELETE None None],
           Inl e))"
proof -
  have k: "apiKey (config_of_env (Some ''key'')) \<noteq> []"
    by (simp add: config_of_env_def)
  have f1: "fetch (example_runtime (Response project_found)) q = Response project_found" for q
    by (simp add: example_runtime_def)
  have f2: "fetch (example_runtime (Response no_content)) q = Response no_content" for q
    by (simp add: example_runtime_def)
  have o1: "ok project_found" and o2: "ok no_content"
    by (simp_all add: example_defs)
  have p1: "JSON_parse (example_runtime (Response project_found)) (body_text project_found)
      = Inr (Obj [(''id'', Str ''p1''), (''name'', Str ''Website'')])"
    by (simp add: example_defs)
  have p2: "JSON_parse (example_runtime (Response no_content)) (body_text no_content)
      = Inl ''Unexpected end of JSON input''"
    by (simp add: example_defs)
  from C2_success_status [OF k f1 o1] p1 C2_success_status [OF k f2 o2] p2
  show ?thesis by blast
qed

text \<open>
  Claim C2 as stated does not hold: a 204 response with an empty body makes
  \<open>response.json()\<close> reject, so the call fails instead of yielding an empty result.
\<close>

theorem C2_empty_body_counterexample:
  "ok no_content \<and> body_text no_content = []
   \<and> makeRequest (config_of_env (Some ''key'')) (example_runtime (Response no_content))
        ''/workspaces/w1/clients/c1'' DELETE None None =
      ([\<lparr>url = ''https://api.clockify.me/api/v1/workspaces/w1/clients/c1'',
         http_method = DELETE,
         headers = [(''X-Api-Key'', ''key''), (''Content-Type'', ''application/json'')],
         body = None\<rparr>],
       Inl (JsError ''Unexpected end of JSON input''))"
  by (simp add: makeRequest_def request_for_def example_defs)

subsection \<open>No API key\<close>

text \<open>
  Claim C7: with the empty API key, \<open>makeRequest\<close> fails with the configuration
  error and issues no request; every tool call fails without issuing a request, and a
  call that reaches the network under some configuration fails with the
  configuration error under the empty key.
\<close>

theorem C7_no_api_key:
  assumes "apiKey cfg = []"
  shows "makeRequest cfg rt path meth data over = ([], Inl not_configured)
       \<and> (\<exists>e. callTool cfg rt name args = ([], Inl e))
       \<and> (fst (callTool cfg' rt name args) \<noteq> []
            \<longrightarrow> callTool cfg rt name args = ([], Inl not_configured))"
proof -
  from single_call_switch [of rt name args]
  consider (thrown) x where "\<forall>c. switch c rt name args = ([], Inl x)"
    | (call) e m d b where "\<forall>c. switch c rt name args = makeRequest c rt e m d b"
    unfolding single_call_def by blast
  then have "(\<exists>e. callTool cfg rt name args = ([], Inl e))
       \<and> (fst (callTool cfg' rt name args) \<noteq> []
            \<longrightarrow> callTool cfg rt name args = ([], Inl not_configured))"
  proof cases
    case thrown
    then show ?thesis by (simp add: callTool_def)
  next
    case call
    with assms show ?thesis
      by (simp add: callTool_def makeRequest_no_key not_configured_def)
  qed
  with assms show ?thesis by (simp add: makeRequest_no_key)
qed

theorem C7_no_api_key_witness:
  "apiKey (config_of_env None) = []
   \<and> fst (callTool (config_of_env (Some ''key'')) (example_runtime (Response project_found))
        ''get_project'' (Some [(''workspaceId'', Str ''w1''), (''projectId'', Str ''p1'')])) \<noteq> []
   \<and> callTool (config_of_env None) (example_runtime (Response project_found))
        ''get_project'' (Some [(''workspaceId'', Str ''w1''), (''projectId'', Str ''p1'')])
      = ([], Inl not_configured)"
proof -
  have k: "apiKey (config_of_env None) = []"
    by (simp add: config_of_env_def)
  have s: "fst (callTool (config_of_env (Some ''key'')) (example_runtime (Response project_found))
        ''get_project'' (Some [(''workspaceId'', Str ''w1''), (''projectId'', Str ''p1'')])) \<noteq> []"
    by (simp add: fst_callTool switch_def require_def arg_def getProject_def makeRequest_def
          config_of_env_def)
  from C7_no_api_key [OF k] s k show ?thesis by blast
qed

subsection \<open>Remote errors\<close>

text \<open>
  Claim C8: a response whose status is outside the success range makes \<open>makeRequest\<close>
  fail with an internal error carrying the status code and the raw body text, and any
  tool call whose request is answered so surfaces that same error.
\<close>

theorem C8_remote_error:
  assumes "\<not> ok r"
  shows "(apiKey cfg \<noteq> [] \<and> fetch rt (request_for cfg path meth data over) = Response r
          \<longrightarrow> makeRequest cfg rt path meth data over =
                ([request_for cfg path meth data over],
                 Inl (McpError InternalError
                   (''Clockify API error ('' @ digits (status r) @ ''): '' @ body_text r))))
       \<and> (callTool cfg rt name args = ([q], res) \<and> fetch rt q = Response r
          \<longrightarrow> res = Inl (McpError InternalError
                   (''Clockify API error ('' @ digits (status r) @ ''): '' @ body_text r)))"
proof (intro conjI impI)
  assume "apiKey cfg \<noteq> [] \<and> fetch rt (request_for cfg path meth data over) = Response r"
  with assms show "makeRequest cfg rt path meth data over =
      ([request_for cfg path meth data over],
       Inl (McpError InternalError
         (''Clockify API error ('' @ digits (status r) @ ''): '' @ body_text r)))"
    by (simp add: makeRequest_not_ok api_error_def)
next
  assume a: "callTool cfg rt name args = ([q], res) \<and> fetch rt q = Response r"
  from single_call_switch [of rt name args]
  consider (thrown) x where "\<forall>c. switch c rt name args = ([], Inl x)"
    | (call) e m d b where "\<forall>c. switch c rt name args = makeRequest c rt e m d b"
    unfolding single_call_def by blast
  then show "res = Inl (McpError InternalError
      (''Clockify API error ('' @ digits (status r) @ ''): '' @ body_text r))"
  proof cases
    case thrown
    with a show ?thesis by (simp add: callTool_def)
  next
    case call
    then have sw: "switch cfg rt name args = makeRequest cfg rt e m d b" by simp
    from a have "fst (switch cfg rt name args) = [q]"
      by (simp add: fst_callTool [symmetric])
    with sw have key: "apiKey cfg \<noteq> []" and q: "q = request_for cfg e m d b"
      by (auto simp: makeRequest_def split: if_splits)
    from a q have "fetch rt (request_for cfg e m d b) = Response r" by simp
    with key assms have "makeRequest cfg rt e m d b = ([q], Inl (api_error r))"
      using q by (simp add: makeRequest_not_ok)
    with sw a show ?thesis by (simp add: callTool_def api_error_def)
  qed
qed

theorem C8_remote_error_witness:
  "\<not> ok not_found
   \<and> callTool (config_of_env (Some ''key'')) (example_runtime (Response not_found))
        ''get_project'' (Some [(''workspaceId'', Str ''w1''), (''projectId'', Str ''p1'')])
      = ([\<lparr>url = ''https://api.clockify.me/api/v1/workspaces/w1/projects/p1'',
            http_method = GET,
            headers = [(''X-Api-Key'', ''key''), (''Content-Type'', ''application/json'')],
            body = None\<rparr>],
         Inl (McpError InternalError ''Clockify API error (404): Not found''))"
proof -
  let ?cfg = "config_of_env (Some ''key'')"
  let ?rt = "example_runtime (Response not_found)"
  let ?args = "Some [(''workspaceId'', Str ''w1''), (''projectId'', Str ''p1'')]"
  let ?q = "\<lparr>url = ''https://api.clockify.me/api/v1/workspaces/w1/projects/p1'',
            http_method = GET,
            headers = [(''X-Api-Key'', ''key''), (''Content-Type'', ''application/json'')],
            body = None\<rparr>"
  have n: "\<not> ok not_found" by (simp add: example_defs)
  have f: "fetch ?rt ?q = Response not_found" by (simp add: example_runtime_def)
  have "fst (callTool ?cfg ?rt ''get_project'' ?args) = [?q]"
    by (simp add: fst_callTool switch_def require_def arg_def getProject_def makeRequest_def
          request_for_def workspaces_def config_of_env_def)
  then obtain res where c: "callTool ?cfg ?rt ''get_project'' ?args = ([?q], res)"
    by (cases "callTool ?cfg ?rt ''get_project'' ?args") simp
  from C8_remote_error [OF n, of ?cfg ?rt _ _ _ _ "''get_project''" ?args ?q res] c f
  have "res = Inl (McpError InternalError
      (''Clockify API error ('' @ digits (status not_found) @ ''): '' @ body_text not_found))"
    by blast
  then have "res = Inl (McpError InternalError ''Clockify API error (404): Not found'')"
    by (simp add: not_found_def)
  with c n show ?thesis by simp
qed

subsection \<open>Unknown operations\<close>

text \<open>
  Claim C9: a name outside the catalogue makes the dispatcher fail with a
  method-not-found error, with no handler run and no request issued.
\<close>

theorem C9_unknown_tool:
  assumes "name \<notin> set (map fst catalogue)"
  shows "callTool cfg rt name args = ([], Inl (McpError MethodNotFound (''Unknown tool: '' @ name)))"
  using assms by (simp add: catalogue_def callTool_def switch_def)

theorem C9_unknown_tool_witness:
  "''get_invoices'' \<notin> set (map fst catalogue)
   \<and> callTool (config_of_env (Some ''key'')) (example_runtime (Response project_found))
        ''get_invoices'' (Some [(''workspaceId'', Str ''w1'')])
      = ([], Inl (McpError MethodNotFound ''Unknown tool: get_invoices''))"
proof -
  have n: "''get_invoices'' \<notin> set (map fst catalogue)"
    by (simp add: catalogue_def)
  from C9_unknown_tool [OF n] n show ?thesis by simp
qed

section \<open>Properties of the handlers\<close>

subsection \<open>Property reads\<close>

lemma get_prop_absent: "k \<notin> fst ` set ps \<Longrightarrow> get_prop ps k = Undefined"
  by (induction ps) auto

lemma get_prop_rest_props:
  "get_prop (rest_props ks ps) k = (if k \<in> set ks then Undefined else get_prop ps k)"
  by (induction ps) (auto simp: rest_props_def)


lemma get_prop_remove_undefined:
  "distinct (map fst ps) \<Longrightarrow> get_prop (remove_undefined ps) k = get_prop ps k"
proof (induction ps)
  case Nil
  then show ?case by (simp add: remove_undefined_def)
next
  case (Cons p ps)
  obtain k' v where p: "p = (k', v)" by (cases p)
  from Cons.prems p have absent: "k' \<notin> fst ` set ps" and d: "distinct (map fst ps)"
    by auto
  from Cons.IH [OF d] have ih: "get_prop (filter (\<lambda>p. snd p \<noteq> Undefined) ps) k = get_prop ps k"
    by (simp add: remove_undefined_def)
  show ?case
  proof (cases "v = Undefined")
    case True
    with p ih absent show ?thesis
      by (auto simp: remove_undefined_def get_prop_absent)
  next
    case False
    with p ih show ?thesis by (simp add: remove_undefined_def)
  qed
qed


lemma js_or_falsy: "\<not> truthy v \<Longrightarrow> js_or v d = d"
  by (simp add: js_or_def)

lemma js_or_defined: "d \<noteq> Undefined \<Longrightarrow> js_or v d \<noteq> Undefined"
  by (cases v) (auto simp: js_or_def)

lemma perform_sent:
  "apiKey cfg \<noteq> [] \<Longrightarrow>
     fst (perform cfg rt c) = [request_for cfg (endpoint c) (verb c) (payload c) (base c)]"
  by (simp add: perform_def makeRequest_def)

subsection \<open>Required arguments\<close>

text \<open>
  What the dispatcher does check: for every operation but the two reports, a path
  identifier the catalogue requires (any required argument other than \<open>start\<close> and
  \<open>name\<close>) that is absent or falsy yields an invalid-parameters error and no request.
\<close>

lemma path_identifiers_checked:
  assumes "(name, ks) \<in> set catalogue"
    and "name \<noteq> ''get_detailed_report''" and "name \<noteq> ''get_summary_report''"
    and "k \<in> set ks" and "k \<noteq> ''start''" and "k \<noteq> ''name''"
    and "\<not> truthy (arg args k)"
  shows "\<exists>msg. callTool cfg rt name args = ([], Inl (McpError InvalidParams msg))"
  using assms unfolding catalogue_def
  apply simp
  apply (elim disjE conjE)
  apply (auto simp: callTool_def switch_def require_def)
  done

text \<open>
  Claim C1 says that omitting any argument the catalogue declares required yields an
  invalid-parameters error before any request. The dispatcher guards the path
  identifiers of twenty-four operations only. The catalogue requires \<open>workspaceId\<close>
  for \<open>get_detailed_report\<close>, but the switch calls the report handlers unguarded: with the
  argument omitted and a key configured, the request goes out to
  \<open>/workspaces/undefined/reports/detailed\<close>. Likewise \<open>create_project\<close> without its
  required \<open>name\<close> posts an empty body.
\<close>

theorem C1_missing_required_argument_reaches_network:
  "map_of catalogue ''get_detailed_report''
     = Some [''workspaceId'', ''dateRangeStart'', ''dateRangeEnd'']
   \<and> fst (callTool (config_of_env (Some ''key'')) (example_runtime answer)
        ''get_detailed_report''
        (Some [(''dateRangeStart'', Str ''2024-01-01T00:00:00Z''),
               (''dateRangeEnd'', Str ''2024-01-31T23:59:59Z'')])) =
      [\<lparr>url = ''https://reports.api.clockify.me/v1/workspaces/undefined/reports/detailed'',
        http_method = POST,
        headers = [(''X-Api-Key'', ''key''), (''Content-Type'', ''application/json'')],
        body = Some (Obj
          [(''dateRangeStart'', Str ''2024-01-01T00:00:00Z''),
           (''dateRangeEnd'', Str ''2024-01-31T23:59:59Z''),
           (''detailedFilter'', Obj
              [(''sortColumn'', Str ''DATE''), (''sortOrder'', Str ''DESCENDING''),
               (''page'', Num 1), (''pageSize'', Num 50),
               (''options'', Obj [(''totals'', Str ''CALCULATE'')])]),
           (''exportType'', Str ''JSON'')])\<rparr>]
   \<and> map_of catalogue ''create_project'' = Some [''workspaceId'', ''name'']
   \<and> fst (callTool (config_of_env (Some ''key'')) (example_runtime answer)
        ''create_project'' (Some [(''workspaceId'', Str ''w1'')])) =
      [\<lparr>url = ''https://api.clockify.me/api/v1/workspaces/w1/projects'',
        http_method = POST,
        headers = [(''X-Api-Key'', ''key''), (''Content-Type'', ''application/json'')],
        body = Some (Obj [])\<rparr>]"
proof (intro conjI)
  show "map_of catalogue ''get_detailed_report''
     = Some [''workspaceId'', ''dateRangeStart'', ''dateRangeEnd'']"
    by (simp add: catalogue_def)
  show "map_of catalogue ''create_project'' = Some [''workspaceId'', ''name'']"
    by (simp add: catalogue_def)
  show "fst (callTool (config_of_env (Some ''key'')) (example_runtime answer)
        ''get_detailed_report''
        (Some [(''dateRangeStart'', Str ''2024-01-01T00:00:00Z''),
               (''dateRangeEnd'', Str ''2024-01-31T23:59:59Z'')])) =
      [\<lparr>url = ''https://reports.api.clockify.me/v1/workspaces/undefined/reports/detailed'',
        http_method = POST,
        headers = [(''X-Api-Key'', ''key''), (''Content-Type'', ''application/json'')],
        body = Some (Obj
          [(''dateRangeStart'', Str ''2024-01-01T00:00:00Z''),
           (''dateRangeEnd'', Str ''2024-01-31T23:59:59Z''),
           (''detailedFilter'', Obj
              [(''sortColumn'', Str ''DATE''), (''sortOrder'', Str ''DESCENDING''),
               (''page'', Num 1), (''pageSize'', Num 50),
               (''options'', Obj [(''totals'', Str ''CALCULATE'')])]),
           (''exportType'', Str ''JSON'')])\<rparr>]"
    by (simp add: fst_callTool switch_def getDetailedReport_def getDetailedReport_request_def
          perform_or_throw_def perform_sent request_for_def config_of_env_def
          detailed_payload_def remove_undefined_def rest_props_def js_or_def ids_filter_def
          Math_min_def workspaces_def reports_base_def)
  show "fst (callTool (config_of_env (Some ''key'')) (example_runtime answer)
        ''create_project'' (Some [(''workspaceId'', Str ''w1'')])) =
      [\<lparr>url = ''https://api.clockify.me/api/v1/workspaces/w1/projects'',
        http_method = POST,
        headers = [(''X-Api-Key'', ''key''), (''Content-Type'', ''application/json'')],
        body = Some (Obj [])\<rparr>]"
    by (simp add: fst_callTool switch_def require_def arg_def with_bag_def createProject_def
          createProject_request_def perform_sent request_for_def config_of_env_def
          rest_props_def workspaces_def ws_required_def)
qed

subsection \<open>Date normalization of time entries\<close>











subsection \<open>Query strings of the list handlers\<close>














subsection \<open>Report payloads\<close>

lemma distinct_detailed: "distinct (map fst (detailed_payload rt d))"
  by (simp add: detailed_payload_def)


lemma Math_min_bound: "Math_min f v m = NaN \<or> (\<exists>n. Math_min f v m = Num n \<and> n \<le> m)"
  by (cases "ToNumber f v") (auto simp: Math_min_def)

lemma detailedFilter:
  "get_prop (detailed_payload rt d) ''detailedFilter'' = Obj
         [(''sortColumn'', js_or (get_prop d ''sortColumn'') (Str ''DATE'')),
          (''sortOrder'', js_or (get_prop d ''sortOrder'') (Str ''DESCENDING'')),
          (''page'', js_or (get_prop d ''page'') (Num 1)),
          (''pageSize'',
             Math_min (string_to_number rt) (js_or (get_prop d ''pageSize'') (Num 50)) 1000),
          (''options'', Obj [(''totals'', Str ''CALCULATE'')])]"
  by (simp add: detailed_payload_def)


lemma detailed_payload_top:
  "get_prop (detailed_payload rt d) ''page'' = Undefined"
  "get_prop (detailed_payload rt d) ''pageSize'' = Undefined"
  "get_prop (detailed_payload rt d) ''sortColumn'' = Undefined"
  "get_prop (detailed_payload rt d) ''sortOrder'' = Undefined"
  by (simp_all add: detailed_payload_def)

text \<open>
  Claim C5: the detailed report is a POST to the report-service base URL whose body
  nests \<open>sortColumn\<close>, \<open>sortOrder\<close>, \<open>page\<close> and \<open>pageSize\<close> under \<open>detailedFilter\<close>, next to
  the fixed \<open>options.totals = "CALCULATE"\<close>, and not at the top level; the
  \<open>pageSize\<close> sent is a number that is at most 1000 (or NaN, when the argument is not
  numeric), a numeric \<open>pageSize\<close> \<open>n\<close> being sent as \<open>min n 1000\<close>, so 5000 as 1000.
\<close>

theorem C5_detailed_report:
  "\<exists>p df.
     getDetailedReport_request rt (Some a) =
       Inr \<lparr>endpoint = ''/workspaces/'' @ ToString (get_prop a ''workspaceId'')
                         @ ''/reports/detailed'',
            verb = POST, payload = Some (Obj p),
            base = Some ''https://reports.api.clockify.me/v1''\<rparr>
     \<and> get_prop p ''detailedFilter'' = Obj df
     \<and> map fst df = [''sortColumn'', ''sortOrder'', ''page'', ''pageSize'', ''options'']
     \<and> get_prop df ''options'' = Obj [(''totals'', Str ''CALCULATE'')]
     \<and> get_prop p ''sortColumn'' = Undefined \<and> get_prop p ''sortOrder'' = Undefined
     \<and> get_prop p ''page'' = Undefined \<and> get_prop p ''pageSize'' = Undefined
     \<and> (get_prop df ''pageSize'' = NaN
          \<or> (\<exists>n. get_prop df ''pageSize'' = Num n \<and> n \<le> 1000))
     \<and> (\<forall>n. get_prop a ''pageSize'' = Num n
            \<longrightarrow> get_prop df ''pageSize'' = Num (if n = 0 then 50 else min n 1000))
     \<and> (apiKey cfg \<noteq> [] \<longrightarrow>
          fst (getDetailedReport cfg rt (Some a)) =
            [\<lparr>url = ''https://reports.api.clockify.me/v1'' @ ''/workspaces/''
                     @ ToString (get_prop a ''workspaceId'') @ ''/reports/detailed'',
              http_method = POST,
              headers = [(''X-Api-Key'', apiKey cfg), (''Content-Type'', ''application/json'')],
              body = Some (Obj p)\<rparr>])"
proof -
  let ?d = "rest_props [''workspaceId''] a"
  let ?p = "remove_undefined (detailed_payload rt ?d)"
  let ?size = "Math_min (string_to_number rt) (js_or (get_prop a ''pageSize'') (Num 50)) 1000"
  let ?df = "[(''sortColumn'', js_or (get_prop a ''sortColumn'') (Str ''DATE'')),
          (''sortOrder'', js_or (get_prop a ''sortOrder'') (Str ''DESCENDING'')),
          (''page'', js_or (get_prop a ''page'') (Num 1)),
          (''pageSize'', ?size),
          (''options'', Obj [(''totals'', Str ''CALCULATE'')])]"
  have req: "getDetailedReport_request rt (Some a) =
       Inr \<lparr>endpoint = ''/workspaces/'' @ ToString (get_prop a ''workspaceId'')
                         @ ''/reports/detailed'',
            verb = POST, payload = Some (Obj ?p),
            base = Some ''https://reports.api.clockify.me/v1''\<rparr>"
    by (simp add: getDetailedReport_request_def workspaces_def reports_base_def)
  have get: "get_prop ?p k = get_prop (detailed_payload rt ?d) k" for k
    by (simp add: get_prop_remove_undefined distinct_detailed)
  have df: "get_prop ?p ''detailedFilter'' = Obj ?df"
    by (simp add: get detailedFilter get_prop_rest_props)
  have top: "get_prop ?p ''sortColumn'' = Undefined \<and> get_prop ?p ''sortOrder'' = Undefined
     \<and> get_prop ?p ''page'' = Undefined \<and> get_prop ?p ''pageSize'' = Undefined"
    by (simp add: get detailed_payload_top)
  have size: "get_prop ?df ''pageSize'' = ?size" by simp
  have bound: "?size = NaN \<or> (\<exists>n. ?size = Num n \<and> n \<le> 1000)"
    by (rule Math_min_bound)
  have num: "\<forall>n. get_prop a ''pageSize'' = Num n
            \<longrightarrow> ?size = Num (if n = 0 then 50 else min n 1000)"
    by (simp add: Math_min_def js_or_def)
  have sent: "apiKey cfg \<noteq> [] \<longrightarrow>
          fst (getDetailedReport cfg rt (Some a)) =
            [\<lparr>url = ''https://reports.api.clockify.me/v1'' @ ''/workspaces/''
                     @ ToString (get_prop a ''workspaceId'') @ ''/reports/detailed'',
              http_method = POST,
              headers = [(''X-Api-Key'', apiKey cfg), (''Content-Type'', ''application/json'')],
              body = Some (Obj ?p)\<rparr>]"
    by (simp add: getDetailedReport_def req perform_or_throw_def perform_sent request_for_def)
  have opts: "get_prop ?df ''options'' = Obj [(''totals'', Str ''CALCULATE'')]" by simp
  have keys: "map fst ?df = [''sortColumn'', ''sortOrder'', ''page'', ''pageSize'', ''options'']"
    by simp
  show ?thesis
    apply (rule exI [of _ ?p])
    apply (rule exI [of _ ?df])
    using req df keys opts top size bound num sent
    apply (simp only:)
    done
qed

theorem C5_detailed_report_witness:
  "\<exists>p df.
     fst (getDetailedReport (config_of_env (Some ''key'')) (example_runtime (Response project_found))
       (Some [(''workspaceId'', Str ''w1''), (''dateRangeStart'', Str ''2024-01-01T00:00:00Z''),
              (''dateRangeEnd'', Str ''2024-01-31T23:59:59Z''), (''pageSize'', Num 5000)])) =
       [\<lparr>url = ''https://reports.api.clockify.me/v1/workspaces/w1/reports/detailed'',
         http_method = POST,
         headers = [(''X-Api-Key'', ''key''), (''Content-Type'', ''application/json'')],
         body = Some (Obj p)\<rparr>]
     \<and> get_prop p ''detailedFilter'' = Obj df
     \<and> get_prop df ''pageSize'' = Num 1000
     \<and> get_prop df ''options'' = Obj [(''totals'', Str ''CALCULATE'')]"
proof -
  let ?a = "[(''workspaceId'', Str ''w1''), (''dateRangeStart'', Str ''2024-01-01T00:00:00Z''),
              (''dateRangeEnd'', Str ''2024-01-31T23:59:59Z''), (''pageSize'', Num 5000)]"
  have k: "apiKey (config_of_env (Some ''key'')) \<noteq> []" by (simp add: config_of_env_def)
  have s: "get_prop ?a ''pageSize'' = Num 5000" by simp
  from C5_detailed_report [of "example_runtime (Response project_found)" ?a
      "config_of_env (Some ''key'')"]
  obtain p df where
    "get_prop p ''detailedFilter'' = Obj df"
    "get_prop df ''options'' = Obj [(''totals'', Str ''CALCULATE'')]"
    "\<forall>n. get_prop ?a ''pageSize'' = Num n
            \<longrightarrow> get_prop df ''pageSize'' = Num (if n = 0 then 50 else min n 1000)"
    "apiKey (config_of_env (Some ''key'')) \<noteq> [] \<longrightarrow>
          fst (getDetailedReport (config_of_env (Some ''key''))
                 (example_runtime (Response project_found)) (Some ?a)) =
            [\<lparr>url = ''https://reports.api.clockify.me/v1'' @ ''/workspaces/''
                     @ ToString (get_prop ?a ''workspaceId'') @ ''/reports/detailed'',
              http_method = POST,
              headers = [(''X-Api-Key'', apiKey (config_of_env (Some ''key''))),
                         (''Content-Type'', ''application/json'')],
              body = Some (Obj p)\<rparr>]"
    by blast
  with k s have
    "fst (getDetailedReport (config_of_env (Some ''key''))
            (example_runtime (Response project_found)) (Some ?a)) =
       [\<lparr>url = ''https://reports.api.clockify.me/v1/workspaces/w1/reports/detailed'',
         http_method = POST,
         headers = [(''X-Api-Key'', ''key''), (''Content-Type'', ''application/json'')],
         body = Some (Obj p)\<rparr>]
     \<and> get_prop p ''detailedFilter'' = Obj df
     \<and> get_prop df ''pageSize'' = Num 1000
     \<and> get_prop df ''options'' = Obj [(''totals'', Str ''CALCULATE'')]"
    by (simp add: config_of_env_def)
  then show ?thesis by blast
qed




subsection \<open>Defaulted arguments\<close>











end
